theory Spec2Isabelle
  imports Complex_Main "HOL-Library.Sublist"
begin

section \<open>JavaScript values\<close>

text \<open>
  The values that reach the functions verified here: numbers (IEEE doubles: the finite ones as
  reals, and the three special values), strings, booleans, \<open>null\<close> and \<open>undefined\<close>.
  Strings are ASCII. The failures of the Node API and of the repository's own \<open>throw\<close>
  statements are \<open>Error\<close> objects carrying a message.
\<close>

datatype js_number = Fin real | NaN | PosInfinity | NegInfinity

datatype js_val = JUndefined | JNull | JBool bool | JNum js_number | JStr string

datatype js_type = TUndefined | TObject | TBoolean | TNumber | TString

datatype js_error = Error (message: string)

type_synonym js_object = "(string \<times> js_val) list"

text \<open>
  What an operation handed to the tracer may throw or reject with: an \<open>Error\<close> object,
  another object (given by what its \<open>message\<close> property reads as, \<open>undefined\<close> when it
  has none), or a primitive (\<open>throw null\<close>, a promise rejected with \<open>undefined\<close> or
  with a string).
\<close>

datatype thrown = Thrown_Error js_error | Thrown_Object js_val | Thrown_Value js_val

fun typeof :: "js_val \<Rightarrow> js_type" where
  "typeof JUndefined = TUndefined"
| "typeof JNull = TObject"
| "typeof (JBool b) = TBoolean"
| "typeof (JNum n) = TNumber"
| "typeof (JStr s) = TString"

text \<open>Truthiness, as \<open>!x\<close>, \<open>x || y\<close> and \<open>if (x)\<close> read it.\<close>

fun truthy :: "js_val \<Rightarrow> bool" where
  "truthy JUndefined = False"
| "truthy JNull = False"
| "truthy (JBool b) = b"
| "truthy (JNum (Fin x)) = (x \<noteq> 0)"
| "truthy (JNum NaN) = False"
| "truthy (JNum PosInfinity) = True"
| "truthy (JNum NegInfinity) = True"
| "truthy (JStr s) = (s \<noteq> [])"

text \<open>\<open>n < 0\<close> on a number: every comparison with \<open>NaN\<close> is false.\<close>

fun lt_zero :: "js_number \<Rightarrow> bool" where
  "lt_zero (Fin x) = (x < 0)"
| "lt_zero NaN = False"
| "lt_zero PosInfinity = False"
| "lt_zero NegInfinity = True"

text \<open>\<open>a || b\<close> on values.\<close>

definition js_or :: "js_val \<Rightarrow> js_val \<Rightarrow> js_val" where
  "js_or a b = (if truthy a then a else b)"

text \<open>
  \<open>process.env.X || d\<close>: an environment variable is a string or absent; the empty string is
  falsy.
\<close>

definition env_or :: "string option \<Rightarrow> string \<Rightarrow> string" where
  "env_or v d = (case v of None \<Rightarrow> d | Some s \<Rightarrow> if s = [] then d else s)"

text \<open>The double quote, for the messages that hold one.\<close>

definition dq :: string where
  "dq = [CHR 0x22]"

definition sq :: string where
  "sq = [CHR 0x27]"

text \<open>
  \<open>error.message\<close> on a caught value: the message of an \<open>Error\<close> or of another
  object; a \<open>TypeError\<close> on \<open>null\<close> and \<open>undefined\<close>; \<open>undefined\<close> on every other
  primitive.
\<close>

fun read_message :: "thrown \<Rightarrow> js_error + js_val" where
  "read_message (Thrown_Error e) = Inr (JStr (message e))"
| "read_message (Thrown_Object v) = Inr v"
| "read_message (Thrown_Value JNull) =
     Inl (Error (''Cannot read properties of null (reading '' @ sq @ ''message'' @ sq @ '')''))"
| "read_message (Thrown_Value JUndefined) =
     Inl (Error (''Cannot read properties of undefined (reading '' @ sq @ ''message'' @ sq @ '')''))"
| "read_message (Thrown_Value v) = Inr JUndefined"

text \<open>\<open>String.prototype.toUpperCase\<close> and \<open>toLowerCase\<close> on ASCII.\<close>

definition lower_letters :: string where
  "lower_letters = ''abcdefghijklmnopqrstuvwxyz''"

definition upper_letters :: string where
  "upper_letters = ''ABCDEFGHIJKLMNOPQRSTUVWXYZ''"

definition upper_char :: "char \<Rightarrow> char" where
  "upper_char c = (case map_of (zip lower_letters upper_letters) c of Some u \<Rightarrow> u | None \<Rightarrow> c)"

definition lower_char :: "char \<Rightarrow> char" where
  "lower_char c = (case map_of (zip upper_letters lower_letters) c of Some l \<Rightarrow> l | None \<Rightarrow> c)"

definition toUpperCase :: "string \<Rightarrow> string" where
  "toUpperCase s = map upper_char s"

definition toLowerCase :: "string \<Rightarrow> string" where
  "toLowerCase s = map lower_char s"

text \<open>
  Objects are their own properties in enumeration order. \<open>obj.k\<close> on a metadata object is
  the property or \<open>undefined\<close>; \<open>{...obj, k: v}\<close> replaces the value of an existing key
  in place and appends a new key.
\<close>

definition get_prop :: "js_object \<Rightarrow> string \<Rightarrow> js_val" where
  "get_prop obj k = (case map_of obj k of Some v \<Rightarrow> v | None \<Rightarrow> JUndefined)"

fun set_prop :: "string \<Rightarrow> js_val \<Rightarrow> js_object \<Rightarrow> js_object" where
  "set_prop k v [] = [(k, v)]"
| "set_prop k v ((k', v') # ps) = (if k' = k then (k, v) # ps else (k', v') # set_prop k v ps)"

text \<open>
  \<open>obj[key]\<close> on an object literal or an object made by \<open>JSON.parse\<close>: an own property, else a property of
  \<open>Object.prototype\<close> (a function or an object, so truthy), else \<open>undefined\<close>.
\<close>

datatype 'a property = Own 'a | Inherited | Undefined

definition Object_prototype :: "string list" where
  "Object_prototype =
     [''constructor'', ''__defineGetter__'', ''__defineSetter__'', ''hasOwnProperty'',
      ''__lookupGetter__'', ''__lookupSetter__'', ''isPrototypeOf'', ''propertyIsEnumerable'',
      ''toString'', ''valueOf'', ''__proto__'', ''toLocaleString'']"

definition lookup :: "(string \<times> 'a) list \<Rightarrow> string \<Rightarrow> 'a property" where
  "lookup obj k =
     (case map_of obj k of
        Some v \<Rightarrow> Own v
      | None \<Rightarrow> if k \<in> set Object_prototype then Inherited else Undefined)"

text \<open>
  The string that \<open>>\<close> sees for a property inherited from \<open>Object.prototype\<close>: the
  source text of the native function, and \<open>[object Object]\<close> for \<open>__proto__\<close>, which is
  \<open>Object.prototype\<close> itself.
\<close>

definition prototype_text :: "string \<Rightarrow> string" where
  "prototype_text k =
     (if k = ''__proto__'' then ''[object Object]''
      else if k = ''constructor'' then ''function Object() { [native code] }''
      else ''function '' @ k @ ''() { [native code] }'')"

text \<open>
  The operands of \<open>a > b\<close> after conversion: a number, a string, or \<open>NaN\<close> (from
  \<open>undefined\<close>). Two strings are compared by code units; a string that is not a numeral
  compares false with a number, and \<open>NaN\<close> compares false with everything.
\<close>

datatype comparand = CNum nat | CStr string | CNaN

fun str_gt :: "string \<Rightarrow> string \<Rightarrow> bool" where
  "str_gt [] bs = False"
| "str_gt (a # as) [] = True"
| "str_gt (a # as) (b # bs) = ((of_char a :: nat) > of_char b \<or> (a = b \<and> str_gt as bs))"

fun js_gt :: "comparand \<Rightarrow> comparand \<Rightarrow> bool" where
  "js_gt (CNum a) (CNum b) = (a > b)"
| "js_gt (CStr a) (CStr b) = str_gt a b"
| "js_gt a b = False"

section \<open>The process: tracer singleton, environment, clock, file system, logger\<close>

text \<open>The fields of the \<open>Tracer\<close> singleton (shared/Tracer.js, constructor).\<close>

record tracer_state =
  projectRoot :: "string option"
  traceFile :: "string option"
  isInitialized :: bool
  sessionID :: "string option"

definition new_Tracer :: tracer_state where
  "new_Tracer = \<lparr>projectRoot = None, traceFile = None, isInitialized = False, sessionID = None\<rparr>"

text \<open>
  One line of the trace file: the entry that \<open>record\<close> hands to \<open>JSON.stringify\<close>. The
  timestamp is kept as the instant (epoch milliseconds) whose ISO-8601 rendering the line
  carries; \<open>sid\<close> is \<open>None\<close> for \<open>null\<close>.
\<close>

record trace_entry =
  ts :: int
  sid :: "string option"
  lyr :: string
  evt :: string
  dat :: js_object

datatype log_level = LogError | LogInfo | LogDebug

text \<open>
  Everything outside the functions that they read or write:
  \<^item> \<open>tracer\<close>: the exported singleton;
  \<^item> \<open>enableTracing\<close>: the private static \<open>#config.enableTracing\<close> of EnvironmentService;
  \<^item> \<open>env\<close>: \<open>process.env\<close>; \<open>node_version\<close>: \<open>process.version\<close>;
  \<^item> \<open>now\<close>: what \<open>Date.now()\<close> returns (the traced operations move the clock, the
    tracer's own file operations take no time); \<open>localDate\<close>: what
    \<open>new Date().toLocaleDateString('en-CA')\<close> returns;
  \<^item> \<open>random36\<close>, \<open>draws\<close>: the base-36 renderings \<open>Math.random().toString(36)\<close> of
    the successive random draws, and how many were taken;
  \<^item> \<open>mkdir_error\<close>, \<open>append_error\<close>: for each path, the message with which \<open>mkdir\<close>
    or \<open>appendFile\<close> rejects there, if it does;
  \<^item> \<open>dirs\<close>, \<open>files\<close>: the directories made, and the lines of each file;
  \<^item> \<open>dotenv_file\<close>: the variables of the .env file, \<open>None\<close> when it cannot be read;
  \<^item> \<open>logged\<close>: the messages handed to the diagnostic logger.
\<close>

record world =
  tracer :: tracer_state
  enableTracing :: bool
  env :: "string \<Rightarrow> string option"
  node_version :: string
  now :: int
  localDate :: string
  random36 :: "nat \<Rightarrow> string"
  draws :: nat
  mkdir_error :: "string \<Rightarrow> string option"
  append_error :: "string \<Rightarrow> string option"
  dirs :: "string set"
  files :: "string \<Rightarrow> trace_entry list"
  dotenv_file :: "(string \<times> string) list option"
  logged :: "(log_level \<times> string) list"

text \<open>\<open>logger.error\<close>, \<open>logger.info\<close>, \<open>logger.debug\<close>.\<close>

definition logger :: "log_level \<Rightarrow> string \<Rightarrow> world \<Rightarrow> world" where
  "logger l msg w = w\<lparr>logged := logged w @ [(l, msg)]\<rparr>"

text \<open>\<open>path.join\<close> of two segments, without its normalisation of dots and slashes.\<close>

definition join :: "string \<Rightarrow> string \<Rightarrow> string" where
  "join a b = a @ ''/'' @ b"

text \<open>
  \<open>appendFile(path, line)\<close>: rejects with the file system's error, or adds the line to the
  file (creating it). A \<open>null\<close> path is rejected as an invalid argument.
\<close>

definition appendFile :: "string option \<Rightarrow> trace_entry \<Rightarrow> world \<Rightarrow> js_error + world" where
  "appendFile p line w =
     (case p of
        None \<Rightarrow>
          Inl (Error (''The '' @ dq @ ''path'' @ dq
                        @ '' argument must be of type string or an instance of Buffer or URL. Received null''))
      | Some f \<Rightarrow>
          (case append_error w f of
             Some msg \<Rightarrow> Inl (Error msg)
           | None \<Rightarrow> Inr (w\<lparr>files := (files w)(f := files w f @ [line])\<rparr>)))"

text \<open>\<open>mkdir(dir, {recursive: true})\<close>.\<close>

definition mkdir :: "string \<Rightarrow> world \<Rightarrow> js_error + world" where
  "mkdir d w =
     (case mkdir_error w d of
        Some msg \<Rightarrow> Inl (Error msg)
      | None \<Rightarrow> Inr (w\<lparr>dirs := insert d (dirs w)\<rparr>))"

section \<open>shared/Tracer.js\<close>

text \<open>
  \<open>const LOG_LEVELS = { error: 0, warn: 1, info: 2, debug: 3 }\<close>, and \<open>LOG_LEVELS[key]\<close>
  as an operand of \<open>>\<close>: the number of a level name, the text of a property inherited from
  \<open>Object.prototype\<close>, and \<open>NaN\<close> for \<open>undefined\<close> under every other key.
\<close>

definition LOG_LEVELS_table :: "(string \<times> nat) list" where
  "LOG_LEVELS_table = [(''error'', 0), (''warn'', 1), (''info'', 2), (''debug'', 3)]"

definition LOG_LEVELS :: "string \<Rightarrow> comparand" where
  "LOG_LEVELS key =
     (case lookup LOG_LEVELS_table key of
        Own n \<Rightarrow> CNum n
      | Inherited \<Rightarrow> CStr (prototype_text key)
      | Undefined \<Rightarrow> CNaN)"

text \<open>
  \<open>LOG_LEVELS[v]\<close> for a value \<open>v\<close>: the key is \<open>String(v)\<close>, and no number, boolean,
  \<open>null\<close> or \<open>undefined\<close> prints as a level name or as a name of \<open>Object.prototype\<close>.
\<close>

fun level_rank :: "js_val \<Rightarrow> comparand" where
  "level_rank (JStr s) = LOG_LEVELS s"
| "level_rank v = CNaN"

text \<open>\<open>Tracer.record(layer, event, data = {})\<close>, lines 84-112.\<close>

definition record_event :: "string \<Rightarrow> string \<Rightarrow> js_object \<Rightarrow> world \<Rightarrow> world" where
  "record_event layer event data w =
     (if \<not> isInitialized (tracer w) \<or> \<not> enableTracing w then w
      else
        let requestLevel = js_or (get_prop data ''level'') (JStr ''info'');
            systemLevel = env_or (env w ''LOG_LEVEL'') ''info''
        in if js_gt (level_rank requestLevel) (LOG_LEVELS systemLevel) then w
           else
             let entry = \<lparr>ts = now w, sid = sessionID (tracer w), lyr = toUpperCase layer,
                          evt = toUpperCase event, dat = data\<rparr>
             in (case appendFile (traceFile (tracer w)) entry w of
                   Inr w' \<Rightarrow> w'
                 | Inl error \<Rightarrow> logger LogError (''[Tracer Error]: '' @ message error) w))"

text \<open>
  \<open>Tracer.initialize(projectRoot, namespace = 'plnexus')\<close>, lines 44-75. The session id is
  \<open>Math.random().toString(36).substring(2, 9).toUpperCase()\<close>.
\<close>

definition initialize :: "string \<Rightarrow> string \<Rightarrow> world \<Rightarrow> world" where
  "initialize rootPath namespace w =
     (if isInitialized (tracer w) then w
      else
        let token = toUpperCase (take 7 (drop 2 (random36 w (draws w))));
            w1 = w\<lparr>tracer := (tracer w)\<lparr>projectRoot := Some rootPath, sessionID := Some token\<rparr>,
                    draws := Suc (draws w)\<rparr>;
            traceDir = join (join rootPath ''logs'') ''traces''
        in (case mkdir traceDir w1 of
              Inl error \<Rightarrow>
                logger LogError (''[Tracer] Initialization Failure: '' @ message error) w1
            | Inr w2 \<Rightarrow>
                let dateStr = localDate w2;
                    w3 = w2\<lparr>tracer := (tracer w2)
                           \<lparr>traceFile := Some (join traceDir (namespace @ ''-'' @ dateStr @ ''.trace.log'')),
                            isInitialized := True\<rparr>\<rparr>
                in record_event ''SYSTEM'' ''TRACER_READY''
                     [(''sid'', JStr token),
                      (''env'', JStr (env_or (env w3 ''NODE_ENV'') ''development'')),
                      (''node'', JStr (node_version w3))] w3))"

text \<open>
  \<open>Tracer.traceSpan(layer, label, fn, meta = {})\<close>, lines 125-154. The operation is any
  function of the process state that returns a value or throws; it may itself write trace
  lines, move the clock or change the configuration. In the \<open>catch\<close>, the metadata of the
  \<open>_FAILED\<close> event is built first, so a failing read of \<open>error.message\<close> leaves the
  handler before \<open>record\<close> and \<open>throw error\<close> are reached.
\<close>

definition traceSpan ::
  "string \<Rightarrow> string \<Rightarrow> (world \<Rightarrow> (thrown + 'a) \<times> world) \<Rightarrow> js_object \<Rightarrow> world
     \<Rightarrow> (thrown + 'a) \<times> world" where
  "traceSpan layer label fn meta w =
     (if \<not> enableTracing w then fn w
      else
        let startTime = now w;
            w1 = record_event layer (label @ ''_START'') meta w
        in (case fn w1 of
              (Inr result, w2) \<Rightarrow>
                let duration = now w2 - startTime
                in (Inr result,
                    record_event layer (label @ ''_COMPLETE'')
                      (set_prop ''durationMs'' (JNum (Fin (of_int duration))) meta) w2)
            | (Inl error, w2) \<Rightarrow>
                let duration = now w2 - startTime
                in (case read_message error of
                      Inl typeError \<Rightarrow> (Inl (Thrown_Error typeError), w2)
                    | Inr msg \<Rightarrow>
                        (Inl error,
                         record_event layer (label @ ''_FAILED'')
                           (set_prop ''error'' msg
                              (set_prop ''durationMs'' (JNum (Fin (of_int duration))) meta)) w2))))"

section \<open>infrastructure/config/EnvironmentService.js\<close>

text \<open>
  \<open>dotenv.config({ path })\<close>: when the file can be read, each of its variables that
  \<open>process.env\<close> does not hold yet is added; the result says whether the file was read.
\<close>

definition dotenv_config :: "world \<Rightarrow> bool \<times> world" where
  "dotenv_config w =
     (case dotenv_file w of
        None \<Rightarrow> (False, w)
      | Some vars \<Rightarrow>
          (True, w\<lparr>env := foldl (\<lambda>e (k, v). if e k = None then e(k \<mapsto> v) else e) (env w) vars\<rparr>))"

text \<open>\<open>String(process.env.X)\<close>: an absent variable prints as \<open>undefined\<close>.\<close>

definition String_env :: "string option \<Rightarrow> string" where
  "String_env v = (case v of None \<Rightarrow> ''undefined'' | Some s \<Rightarrow> s)"

text \<open>
  \<open>EnvironmentService.hydrate()\<close>, lines 36-54; \<open>ENV_PATH\<close> is the module's constant. The
  flag starts as \<open>false\<close> (line 29) and only this function ever sets it.
\<close>

definition hydrate :: "string \<Rightarrow> world \<Rightarrow> world" where
  "hydrate ENV_PATH w =
     (case dotenv_config w of
        (False, w1) \<Rightarrow>
          logger LogInfo ''[Environment] Tracing Status: ${this.#config.enableTracing}''
            (logger LogInfo
               (''[Environment] No .env file found at '' @ ENV_PATH
                  @ ''. Proceeding with system shell variables.'')
               (w1\<lparr>enableTracing := False\<rparr>))
      | (True, w1) \<Rightarrow>
          logger LogInfo ''[Environment] Tracing Status: ${this.#config.enableTracing}''
            (logger LogInfo
               (''[Environment] Successfully hydrated environment variables from: '' @ ENV_PATH)
               (w1\<lparr>enableTracing :=
                     (toLowerCase (String_env (env w1 ''ENABLE_TRACING'')) = ''true'')\<rparr>)))"

section \<open>main.js\<close>

text \<open>
  The first two statements of \<open>bootstrap\<close>, lines 72-75: the tracer is initialised, then the
  environment is hydrated.
\<close>

definition bootstrap_init :: "string \<Rightarrow> string \<Rightarrow> world \<Rightarrow> world" where
  "bootstrap_init PROJECT_ROOT ENV_PATH w = hydrate ENV_PATH (initialize PROJECT_ROOT ''plnexus'' w)"

text \<open>
  Input capture, lines 79-110, as a function of \<open>process.argv.slice(2)\<close>: the help flags
  print the usage and exit; otherwise any argument at all selects the automated strategy, which
  reads the mode (\<open>'2'\<close>, \<open>'1'\<close> or \<open>null\<close>) and the symbol (the first argument that
  does not start with a dash, \<open>undefined\<close> when there is none) from the arguments; no
  argument selects the interactive menu.
\<close>

datatype capture = HelpExit | Automated "string option" "string option" | Interactive

definition startsWith :: "string \<Rightarrow> string \<Rightarrow> bool" where
  "startsWith s p = (take (length p) s = p)"

definition input_capture :: "string list \<Rightarrow> capture" where
  "input_capture args =
     (let isAutomated = length args > 0
      in if ''--help'' \<in> set args \<or> ''-h'' \<in> set args then HelpExit
         else if isAutomated then
           Automated
             (if ''--mock'' \<in> set args then Some ''2''
              else if ''--live'' \<in> set args then Some ''1'' else None)
             (find (\<lambda>arg. \<not> startsWith arg ''--'' \<and> \<not> startsWith arg ''-'') args)
         else Interactive)"

section \<open>infrastructure/factories/AdapterFactory.js\<close>

text \<open>
  One entry of the manifest, and what \<open>readFile\<close> followed by \<open>JSON.parse\<close> finds at the
  manifest's path: no file (\<open>ENOENT\<close>), any other failure with its message, or the
  \<open>adapters\<close> object of the parsed manifest, its keys in the order \<open>Object.keys\<close>
  enumerates them.
\<close>

record adapter_def =
  path :: string
  className :: string
  requiresConfig :: bool
  configKey :: string

datatype manifest_file = Enoent | Unreadable string | Manifest "(string \<times> adapter_def) list"

text \<open>\<open>Array.prototype.join(sep)\<close> on strings.\<close>

fun join_with :: "string \<Rightarrow> string list \<Rightarrow> string" where
  "join_with sep [] = []"
| "join_with sep [x] = x"
| "join_with sep (x # y # ys) = x @ sep @ join_with sep (y # ys)"

text \<open>A template's \<open>${mode}\<close> and the key \<open>adapters[mode]\<close>: \<open>null\<close> prints as \<open>null\<close>.\<close>

definition mode_text :: "string option \<Rightarrow> string" where
  "mode_text mode = (case mode of None \<Rightarrow> ''null'' | Some m \<Rightarrow> m)"

text \<open>\<open>path.isAbsolute\<close> (POSIX).\<close>

definition isAbsolute :: "string \<Rightarrow> bool" where
  "isAbsolute p = (case p of [] \<Rightarrow> False | c # cs \<Rightarrow> c = CHR ''/'')"

text \<open>\<open>AdapterFactory._getManifest()\<close>, lines 171-181.\<close>

definition getManifest ::
  "(string \<Rightarrow> manifest_file) \<Rightarrow> string \<Rightarrow> js_error + (string \<times> adapter_def) list" where
  "getManifest readManifest manifestPath =
     (case readManifest manifestPath of
        Enoent \<Rightarrow>
          Inl (Error (''Manifest missing at: '' @ manifestPath
                        @ ''. Please check your config/ directory.''))
      | Unreadable msg \<Rightarrow> Inl (Error (''Malformed manifest: '' @ msg))
      | Manifest adapters \<Rightarrow> Inr adapters)"

text \<open>
  The body of the \<open>try\<close> of \<open>loadAdapter\<close>, lines 119-156, with what it logged. The file
  system (\<open>readManifest\<close>), the module loader (\<open>importModule\<close>: a module is its exports, a
  class is its constructor, which may throw) and \<open>envService.getProviderConfig\<close> are
  parameters. For an inherited property \<open>adapterDef.path\<close> is \<open>undefined\<close> and
  \<open>isAbsolute\<close> throws its argument error.
\<close>

definition loadAdapter_body ::
  "(string \<Rightarrow> manifest_file) \<Rightarrow> (string \<Rightarrow> js_error + (string \<Rightarrow> ('c option \<Rightarrow> js_error + 'a) option))
     \<Rightarrow> string \<Rightarrow> string option \<Rightarrow> (string \<Rightarrow> js_error + 'c)
     \<Rightarrow> (js_error + 'a) \<times> (log_level \<times> string) list" where
  "loadAdapter_body readManifest importModule rootPath mode getProviderConfig =
     (case getManifest readManifest (join (join rootPath ''config'') ''adapters.manifest.json'') of
        Inl error \<Rightarrow> (Inl error, [])
      | Inr adapters \<Rightarrow>
          (case lookup adapters (mode_text mode) of
             Undefined \<Rightarrow>
               (let available = join_with '', '' (map fst adapters)
                in (Inl (Error (''Execution mode '' @ dq @ mode_text mode @ dq
                                  @ '' is not defined in manifest. Available: ['' @ available @ '']'')),
                    []))
           | Inherited \<Rightarrow>
               (Inl (Error (''The '' @ dq @ ''path'' @ dq
                              @ '' argument must be of type string. Received undefined'')), [])
           | Own adapterDef \<Rightarrow>
               (let rawPath = path adapterDef;
                    modulePath = (if isAbsolute rawPath then rawPath else join rootPath rawPath);
                    log1 = [(LogDebug, ''[AdapterFactory] Resolving dependency: '' @ className adapterDef)]
                in (case importModule modulePath of
                      Inl error \<Rightarrow> (Inl error, log1)
                    | Inr exports \<Rightarrow>
                        (case exports (className adapterDef) of
                           None \<Rightarrow>
                             (Inl (Error (''Export '' @ dq @ className adapterDef @ dq
                                            @ '' not found in module at '' @ rawPath)), log1)
                         | Some AdapterClass \<Rightarrow>
                             if requiresConfig adapterDef then
                               (let providerKey = configKey adapterDef
                                in (case getProviderConfig providerKey of
                                      Inl error \<Rightarrow> (Inl error, log1)
                                    | Inr config \<Rightarrow>
                                        (AdapterClass (Some config),
                                         log1 @ [(LogInfo, ''[AdapterFactory] Injecting configuration for ''
                                                    @ className adapterDef @ '' ('' @ providerKey @ '')'')])))
                             else
                               (AdapterClass None,
                                log1 @ [(LogInfo, ''[AdapterFactory] Initializing ''
                                           @ className adapterDef @ '' (Standard)'')]))))))"

text \<open>
  \<open>AdapterFactory.loadAdapter(mode, envService)\<close>, lines 118-164: every failure of the body
  is logged and thrown again under the mode's context.
\<close>

definition loadAdapter ::
  "(string \<Rightarrow> manifest_file) \<Rightarrow> (string \<Rightarrow> js_error + (string \<Rightarrow> ('c option \<Rightarrow> js_error + 'a) option))
     \<Rightarrow> string \<Rightarrow> string option \<Rightarrow> (string \<Rightarrow> js_error + 'c)
     \<Rightarrow> (js_error + 'a) \<times> (log_level \<times> string) list" where
  "loadAdapter readManifest importModule rootPath mode getProviderConfig =
     (case loadAdapter_body readManifest importModule rootPath mode getProviderConfig of
        (Inr adapter, logs) \<Rightarrow> (Inr adapter, logs)
      | (Inl error, logs) \<Rightarrow>
          (let failureContext = ''[AdapterFactory] Load failure for mode '' @ mode_text mode
                                  @ '': '' @ message error
           in (Inl (Error failureContext), logs @ [(LogError, failureContext)])))"

section \<open>domain/entities/MarketQuote.js\<close>

text \<open>
  The constructor's parameter object and the frozen entity. The three errors stand for the
  thrown \<open>Error\<close>s, with the values their messages interpolate.
\<close>

record quote_params =
  p_symbol :: js_val
  p_price :: js_val
  p_timestamp :: js_val
  p_source :: js_val

record MarketQuote =
  symbol :: string
  price :: js_number
  timestamp :: js_number
  source :: js_val

datatype entity_error =
    InvalidSymbol
  | InvalidPrice js_val js_val
  | InvalidTimestamp js_val

text \<open>The string or number inside a value, read only after \<open>typeof\<close> has been checked.\<close>

fun the_string :: "js_val \<Rightarrow> string" where
  "the_string (JStr s) = s"
| "the_string v = []"

fun the_number :: "js_val \<Rightarrow> js_number" where
  "the_number (JNum n) = n"
| "the_number v = NaN"

text \<open>\<open>new MarketQuote({ symbol, price, timestamp, source })\<close>, lines 16-37.\<close>

definition new_MarketQuote :: "quote_params \<Rightarrow> entity_error + MarketQuote" where
  "new_MarketQuote p =
     (if \<not> truthy (p_symbol p) \<or> typeof (p_symbol p) \<noteq> TString then Inl InvalidSymbol
      else if typeof (p_price p) \<noteq> TNumber \<or> lt_zero (the_number (p_price p)) then
        Inl (InvalidPrice (p_symbol p) (p_price p))
      else if \<not> truthy (p_timestamp p) \<or> typeof (p_timestamp p) \<noteq> TNumber then
        Inl (InvalidTimestamp (p_symbol p))
      else
        Inr \<lparr>symbol = toUpperCase (the_string (p_symbol p)),
             price = the_number (p_price p),
             timestamp = the_number (p_timestamp p),
             source = js_or (p_source p) (JStr ''UNKNOWN'')\<rparr>)"

section \<open>The specification's vocabulary\<close>

text \<open>
  The four severity levels and their verbosity, \<open>error(0) < warn(1) < info(2) < debug(3)\<close>,
  as the specification orders them.
\<close>

datatype level = LvError | LvWarn | LvInfo | LvDebug

fun level_name :: "level \<Rightarrow> string" where
  "level_name LvError = ''error''"
| "level_name LvWarn = ''warn''"
| "level_name LvInfo = ''info''"
| "level_name LvDebug = ''debug''"

fun verbosity :: "level \<Rightarrow> nat" where
  "verbosity LvError = 0"
| "verbosity LvWarn = 1"
| "verbosity LvInfo = 2"
| "verbosity LvDebug = 3"

text \<open>
  An event's declared level is \<open>data.level\<close>, \<open>info\<close> when the metadata has none; the
  system level is \<open>LOG_LEVEL\<close>, \<open>info\<close> when the variable is not set.
\<close>

definition declared_level :: "js_object \<Rightarrow> level \<Rightarrow> bool" where
  "declared_level data l \<longleftrightarrow>
     map_of data ''level'' = Some (JStr (level_name l)) \<or> (map_of data ''level'' = None \<and> l = LvInfo)"

definition system_level :: "world \<Rightarrow> level \<Rightarrow> bool" where
  "system_level w l \<longleftrightarrow>
     env w ''LOG_LEVEL'' = Some (level_name l) \<or> (env w ''LOG_LEVEL'' = None \<and> l = LvInfo)"

text \<open>
  An initialised tracer writing to file \<open>f\<close>, and a trace file that accepts an append.
\<close>

definition initialized :: "world \<Rightarrow> string \<Rightarrow> bool" where
  "initialized w f \<longleftrightarrow> isInitialized (tracer w) \<and> traceFile (tracer w) = Some f"

definition writable :: "world \<Rightarrow> string \<Rightarrow> bool" where
  "writable w f \<longleftrightarrow> append_error w f = None"

text \<open>The line \<open>record(layer, event, data)\<close> builds in state \<open>w\<close>.\<close>

definition entry_of :: "string \<Rightarrow> string \<Rightarrow> js_object \<Rightarrow> world \<Rightarrow> trace_entry" where
  "entry_of layer event data w =
     \<lparr>ts = now w, sid = sessionID (tracer w), lyr = toUpperCase layer,
      evt = toUpperCase event, dat = data\<rparr>"

section \<open>Example states and inputs\<close>

text \<open>
  A process as the modules leave it once loaded: a new tracer, tracing off. Then the same
  process with tracing switched on and the tracer initialised under \<open>/app\<close>.
\<close>

definition process_start :: world where
  "process_start =
     \<lparr>tracer = new_Tracer, enableTracing = False, env = Map.empty, node_version = ''v20.11.0'',
      now = 1000, localDate = ''2025-12-22'', random36 = (\<lambda>n. ''0.k2j5h8q1xz''), draws = 0,
      mkdir_error = (\<lambda>p. None), append_error = (\<lambda>p. None), dirs = {},
      files = (\<lambda>p. []), dotenv_file = Some [(''ENABLE_TRACING'', ''true'')], logged = []\<rparr>"

definition traced_world :: world where
  "traced_world = initialize ''/app'' ''plnexus'' (process_start\<lparr>enableTracing := True\<rparr>)"

definition trace_path :: string where
  "trace_path = ''/app/logs/traces/plnexus-2025-12-22.trace.log''"

text \<open>An operation that takes 25 ms and throws, and one that takes 25 ms and returns 7.\<close>

definition failing_op :: "world \<Rightarrow> (thrown + nat) \<times> world" where
  "failing_op w =
     (Inl (Thrown_Error (Error ''Upstream Market Provider is currently unreachable.'')),
      w\<lparr>now := now w + 25\<rparr>)"

definition returning_op :: "world \<Rightarrow> (thrown + nat) \<times> world" where
  "returning_op w = (Inr 7, w\<lparr>now := now w + 25\<rparr>)"

text \<open>A manifest declaring the modes 1 and 2, and a loader that finds no module.\<close>

definition example_manifest :: "(string \<times> adapter_def) list" where
  "example_manifest =
     [(''1'', \<lparr>path = ''infrastructure/adapters/api/FinnhubAdapter.js'', className = ''FinnhubAdapter'',
              requiresConfig = True, configKey = ''Finnhub''\<rparr>),
      (''2'', \<lparr>path = ''infrastructure/adapters/api/MockMarketAdapter.js'',
              className = ''MockMarketAdapter'', requiresConfig = False, configKey = []\<rparr>)]"

definition no_modules :: "string \<Rightarrow> js_error + (string \<Rightarrow> (unit option \<Rightarrow> js_error + unit) option)" where
  "no_modules p = Inl (Error (''Cannot find module '' @ p))"

definition no_config :: "string \<Rightarrow> js_error + unit" where
  "no_config k = Inl (Error (''Validator for '' @ k @ '' does not implement the .validate() contract.''))"

section \<open>Evaluation and the tracer's building blocks\<close>

lemmas upper_eval = toUpperCase_def upper_char_def lower_letters_def upper_letters_def

lemma LOG_LEVELS_named:
  "LOG_LEVELS ''error'' = CNum 0" "LOG_LEVELS ''warn'' = CNum 1"
  "LOG_LEVELS ''info'' = CNum 2" "LOG_LEVELS ''debug'' = CNum 3"
  by (simp_all add: LOG_LEVELS_def LOG_LEVELS_table_def lookup_def)

lemma declared_level_rank:
  "declared_level data l \<Longrightarrow>
     level_rank (js_or (get_prop data ''level'') (JStr ''info'')) = CNum (verbosity l)"
  by (cases l) (auto simp: declared_level_def js_or_def get_prop_def LOG_LEVELS_named)

lemma system_level_rank:
  "system_level w l \<Longrightarrow> LOG_LEVELS (env_or (env w ''LOG_LEVEL'') ''info'') = CNum (verbosity l)"
  by (cases l) (auto simp: system_level_def env_or_def LOG_LEVELS_named)

lemma record_event_dropped:
  assumes "js_gt (level_rank (js_or (get_prop data ''level'') (JStr ''info'')))
                 (LOG_LEVELS (env_or (env w ''LOG_LEVEL'') ''info''))"
  shows "record_event layer event data w = w"
  using assms by (simp add: record_event_def)

lemma record_event_written:
  assumes "initialized w f" and "enableTracing w" and "writable w f"
    and "\<not> js_gt (level_rank (js_or (get_prop data ''level'') (JStr ''info'')))
                   (LOG_LEVELS (env_or (env w ''LOG_LEVEL'') ''info''))"
  shows "record_event layer event data w =
           w\<lparr>files := (files w)(f := files w f @ [entry_of layer event data w])\<rparr>"
  using assms
  by (simp add: record_event_def initialized_def writable_def appendFile_def entry_of_def)

lemma record_event_unwritable:
  assumes "initialized w f" and "enableTracing w" and "append_error w f = Some msg"
    and "\<not> js_gt (level_rank (js_or (get_prop data ''level'') (JStr ''info'')))
                   (LOG_LEVELS (env_or (env w ''LOG_LEVEL'') ''info''))"
  shows "record_event layer event data w = logger LogError (''[Tracer Error]: '' @ msg) w"
  using assms
  by (simp add: record_event_def initialized_def appendFile_def)

lemma traced_world_tracer:
  "tracer traced_world =
     \<lparr>projectRoot = Some ''/app'', traceFile = Some trace_path, isInitialized = True,
      sessionID = Some ''K2J5H8Q''\<rparr>"
  by (simp add: traced_world_def process_start_def initialize_def new_Tracer_def mkdir_def join_def
      record_event_def js_or_def get_prop_def env_or_def LOG_LEVELS_named appendFile_def trace_path_def
      upper_eval Let_def)

lemma traced_world_fields:
  "enableTracing traced_world" "env traced_world = Map.empty" "now traced_world = 1000"
  "append_error traced_world = (\<lambda>p. None)"
  "files traced_world = (\<lambda>p. [])(trace_path :=
      [\<lparr>ts = 1000, sid = Some ''K2J5H8Q'', lyr = ''SYSTEM'', evt = ''TRACER_READY'',
        dat = [(''sid'', JStr ''K2J5H8Q''), (''env'', JStr ''development''),
               (''node'', JStr ''v20.11.0'')]\<rparr>])"
  "logged traced_world = []"
  by (simp_all add: traced_world_def process_start_def initialize_def new_Tracer_def mkdir_def join_def
      record_event_def js_or_def get_prop_def env_or_def LOG_LEVELS_named appendFile_def trace_path_def
      upper_eval Let_def)

lemma traced_world_ready:
  "initialized traced_world trace_path" "writable traced_world trace_path"
  by (simp_all add: initialized_def writable_def traced_world_tracer traced_world_fields)

lemma map_of_set_prop:
  "map_of (set_prop k v obj) k' = (if k' = k then Some v else map_of obj k')"
  by (induction obj) auto

lemma toUpperCase_append: "toUpperCase (a @ b) = toUpperCase a @ toUpperCase b"
  by (simp add: toUpperCase_def)

lemma toUpperCase_suffixes:
  "toUpperCase ''_START'' = ''_START''" "toUpperCase ''_FAILED'' = ''_FAILED''"
  "toUpperCase ''_COMPLETE'' = ''_COMPLETE''"
  by (simp_all add: upper_eval)

lemma record_event_frame:
  "tracer (record_event layer event data w) = tracer w"
  "enableTracing (record_event layer event data w) = enableTracing w"
  "env (record_event layer event data w) = env w"
  "append_error (record_event layer event data w) = append_error w"
  "now (record_event layer event data w) = now w"
  by (simp_all add: record_event_def appendFile_def logger_def Let_def split: option.splits)

lemma upper_examples:
  "toUpperCase ''domain'' = ''DOMAIN''"
  "toUpperCase ''get_market_snapshot'' = ''GET_MARKET_SNAPSHOT''"
  by (simp_all add: upper_eval)

lemma process_start_initialize:
  "tracer (initialize ''/app'' ''plnexus'' process_start) =
     \<lparr>projectRoot = Some ''/app'', traceFile = Some trace_path, isInitialized = True,
      sessionID = Some ''K2J5H8Q''\<rparr>"
  "files (initialize ''/app'' ''plnexus'' process_start) = files process_start"
  "dirs (initialize ''/app'' ''plnexus'' process_start) = {''/app/logs/traces''}"
  "draws (initialize ''/app'' ''plnexus'' process_start) = 1"
  by (simp_all add: process_start_def initialize_def new_Tracer_def mkdir_def join_def
      record_event_def trace_path_def upper_eval Let_def)


lemma record_event_more_verbose:
  assumes "declared_level data r" and "system_level w s" and "verbosity s < verbosity r"
  shows "record_event layer event data w = w"
proof -
  from assms(3)
  have "js_gt (level_rank (js_or (get_prop data ''level'') (JStr ''info'')))
              (LOG_LEVELS (env_or (env w ''LOG_LEVEL'') ''info''))"
    by (simp add: declared_level_rank [OF assms(1)] system_level_rank [OF assms(2)])
  then show ?thesis by (rule record_event_dropped)
qed

lemma record_event_admitted:
  assumes "initialized w f" and "enableTracing w" and "writable w f"
    and "declared_level data r" and "system_level w s" and "verbosity r \<le> verbosity s"
  shows "record_event layer event data w =
           w\<lparr>files := (files w)(f := files w f @ [entry_of layer event data w])\<rparr>"
proof -
  from assms(6)
  have "\<not> js_gt (level_rank (js_or (get_prop data ''level'') (JStr ''info'')))
                (LOG_LEVELS (env_or (env w ''LOG_LEVEL'') ''info''))"
    by (simp add: declared_level_rank [OF assms(4)] system_level_rank [OF assms(5)])
  with assms(1-3) show ?thesis by (rule record_event_written)
qed

lemma record_event_dirs: "dirs (record_event layer event data w) = dirs w"
  by (simp add: record_event_def appendFile_def logger_def Let_def split: option.splits)

lemma hydrate_frame:
  "files (hydrate ENV_PATH w) = files w" "tracer (hydrate ENV_PATH w) = tracer w"
  by (simp_all add: hydrate_def dotenv_config_def logger_def split: option.splits)

lemma bootstrap_init_writes_nothing:
  assumes "\<not> enableTracing w"
  shows "files (bootstrap_init PROJECT_ROOT ENV_PATH w) = files w"
proof (cases "isInitialized (tracer w)")
  case True
  then show ?thesis by (simp add: bootstrap_init_def hydrate_frame initialize_def)
next
  case False
  then show ?thesis
    using assms
    by (simp add: bootstrap_init_def hydrate_frame initialize_def mkdir_def logger_def
        record_event_def Let_def split: option.splits)
qed

section \<open>Tracing disabled: a span is the operation itself\<close>

text \<open>
  C1. With tracing globally disabled, \<open>traceSpan(layer, label, operation, meta)\<close> is the
  operation: the same returned value, the same thrown error, and the same process state after
  it, so the span itself adds no line to any file (and logs nothing).
\<close>

theorem traceSpan_disabled:
  assumes "\<not> enableTracing w"
  shows "traceSpan layer label fn meta w = fn w
       \<and> fst (traceSpan layer label fn meta w) = fst (fn w)
       \<and> files (snd (traceSpan layer label fn meta w)) = files (snd (fn w))
       \<and> logged (snd (traceSpan layer label fn meta w)) = logged (snd (fn w))"
  using assms by (simp add: traceSpan_def)

theorem traceSpan_disabled_witness:
  "\<not> enableTracing process_start
   \<and> traceSpan ''CLI'' ''USER_INTERACTION'' failing_op [] process_start = failing_op process_start
   \<and> fst (traceSpan ''CLI'' ''USER_INTERACTION'' failing_op [] process_start)
         = Inl (Thrown_Error (Error ''Upstream Market Provider is currently unreachable.''))
   \<and> files (snd (traceSpan ''CLI'' ''USER_INTERACTION'' failing_op [] process_start))
         = files process_start"
  using traceSpan_disabled [of process_start "''CLI''" "''USER_INTERACTION''" failing_op "[]"]
  by (simp add: process_start_def failing_op_def)

section \<open>Level filtering in \<open>record\<close>\<close>

text \<open>
  C2. For an initialised tracer with tracing enabled, an event whose declared level
  (\<open>data.level\<close>, default info) is strictly more verbose than the system level
  (\<open>LOG_LEVEL\<close>, default info) leaves the whole process state, and so the trace file, as it
  was; an event whose level is not more verbose appends exactly one line with the five fields
  \<open>ts\<close>, \<open>sid\<close>, \<open>lyr\<close>, \<open>evt\<close>, \<open>dat\<close> to the trace file and changes nothing else,
  provided the file system accepts the append.
\<close>

theorem record_level_filter:
  assumes "initialized w f" and "enableTracing w"
    and "declared_level data r" and "system_level w s"
  shows "(verbosity s < verbosity r \<longrightarrow> record_event layer event data w = w)
       \<and> (verbosity r \<le> verbosity s \<and> writable w f \<longrightarrow>
            record_event layer event data w =
              w\<lparr>files := (files w)(f := files w f @
                   [\<lparr>ts = now w, sid = sessionID (tracer w), lyr = toUpperCase layer,
                     evt = toUpperCase event, dat = data\<rparr>])\<rparr>)"
proof (intro conjI impI)
  assume "verbosity s < verbosity r"
  then have "js_gt (level_rank (js_or (get_prop data ''level'') (JStr ''info'')))
                   (LOG_LEVELS (env_or (env w ''LOG_LEVEL'') ''info''))"
    by (simp add: declared_level_rank [OF assms(3)] system_level_rank [OF assms(4)])
  then show "record_event layer event data w = w"
    by (rule record_event_dropped)
next
  assume a: "verbosity r \<le> verbosity s \<and> writable w f"
  then have "\<not> js_gt (level_rank (js_or (get_prop data ''level'') (JStr ''info'')))
                      (LOG_LEVELS (env_or (env w ''LOG_LEVEL'') ''info''))"
    by (simp add: declared_level_rank [OF assms(3)] system_level_rank [OF assms(4)])
  with assms(1,2) a show "record_event layer event data w =
              w\<lparr>files := (files w)(f := files w f @
                   [\<lparr>ts = now w, sid = sessionID (tracer w), lyr = toUpperCase layer,
                     evt = toUpperCase event, dat = data\<rparr>])\<rparr>"
    using record_event_written [of w f data layer event] by (simp add: entry_of_def)
qed

theorem record_level_filter_witness:
  "initialized traced_world trace_path \<and> enableTracing traced_world
   \<and> writable traced_world trace_path
   \<and> declared_level [(''level'', JStr ''debug'')] LvDebug
   \<and> system_level traced_world LvInfo
   \<and> system_level (traced_world\<lparr>env := [''LOG_LEVEL'' \<mapsto> ''debug'']\<rparr>) LvDebug
   \<and> record_event ''domain'' ''debug_event'' [(''level'', JStr ''debug'')] traced_world = traced_world
   \<and> files (record_event ''domain'' ''debug_event'' [(''level'', JStr ''debug'')]
              (traced_world\<lparr>env := [''LOG_LEVEL'' \<mapsto> ''debug'']\<rparr>)) trace_path
       = files traced_world trace_path @
           [\<lparr>ts = 1000, sid = Some ''K2J5H8Q'', lyr = ''DOMAIN'', evt = ''DEBUG_EVENT'',
             dat = [(''level'', JStr ''debug'')]\<rparr>]"
proof -
  let ?d = "[(''level'', JStr ''debug'')]"
  let ?w = "traced_world\<lparr>env := [''LOG_LEVEL'' \<mapsto> ''debug'']\<rparr>"
  have d: "declared_level ?d LvDebug" by (simp add: declared_level_def)
  have s1: "system_level traced_world LvInfo" by (simp add: system_level_def traced_world_fields)
  have s2: "system_level ?w LvDebug" by (simp add: system_level_def)
  have i2: "initialized ?w trace_path" "enableTracing ?w" "writable ?w trace_path"
    using traced_world_ready by (simp_all add: initialized_def writable_def traced_world_fields)
  from record_level_filter [OF traced_world_ready(1) traced_world_fields(1) d s1, of "''domain''" "''debug_event''"]
  have a: "record_event ''domain'' ''debug_event'' ?d traced_world = traced_world" by simp
  from record_level_filter [OF i2(1) i2(2) d s2, of "''domain''" "''debug_event''"] i2(3)
  have b: "files (record_event ''domain'' ''debug_event'' ?d ?w) trace_path
      = files traced_world trace_path @
           [\<lparr>ts = 1000, sid = Some ''K2J5H8Q'', lyr = ''DOMAIN'', evt = ''DEBUG_EVENT'',
             dat = ?d\<rparr>]"
    by (simp add: traced_world_tracer traced_world_fields upper_eval)
  from a b d s1 s2 traced_world_ready traced_world_fields(1) show ?thesis by simp
qed

lemma unknown_level_rank:
  assumes "x \<noteq> []" and "x \<notin> {''error'', ''warn'', ''info'', ''debug''}"
    and "x \<notin> set Object_prototype"
  shows "level_rank (js_or (JStr x) (JStr ''info'')) = CNaN"
  using assms by (simp add: js_or_def LOG_LEVELS_def LOG_LEVELS_table_def lookup_def)

lemma empty_level_rank: "level_rank (js_or (JStr []) (JStr ''info'')) = CNum (verbosity LvInfo)"
  by (simp add: js_or_def LOG_LEVELS_named)

text \<open>
  Two names inherited from \<open>Object.prototype\<close> are compared as the texts of the two
  functions: an event of level \<open>toString\<close> is dropped under \<open>LOG_LEVEL=constructor\<close>.
\<close>

lemma inherited_levels_compare_as_text:
  "js_gt (level_rank (js_or (JStr ''toString'') (JStr ''info''))) (LOG_LEVELS ''constructor'')"
  by (simp add: js_or_def LOG_LEVELS_def LOG_LEVELS_table_def lookup_def Object_prototype_def
      prototype_text_def)

text \<open>
  C9 (amended). For an initialised tracer with tracing enabled, an event whose \<open>data.level\<close>
  is a non-empty string that is neither error, warn, info or debug nor the name of a property
  inherited from \<open>Object.prototype\<close> is never dropped by the level filter: whatever
  \<open>LOG_LEVEL\<close> is, one line is appended, provided the file system accepts the append. The
  empty string is falsy, so \<open>data.level || 'info'\<close> makes it an info event, which the filter
  drops under the system levels error and warn.
\<close>

theorem record_unknown_level_never_dropped:
  assumes "initialized w f" and "enableTracing w"
  shows "(get_prop data ''level'' = JStr x \<and> x \<noteq> []
            \<and> x \<notin> {''error'', ''warn'', ''info'', ''debug''} \<and> x \<notin> set Object_prototype
            \<and> writable w f
          \<longrightarrow> record_event layer event data w =
                w\<lparr>files := (files w)(f := files w f @
                     [\<lparr>ts = now w, sid = sessionID (tracer w), lyr = toUpperCase layer,
                       evt = toUpperCase event, dat = data\<rparr>])\<rparr>)
       \<and> (get_prop data ''level'' = JStr [] \<and> system_level w s \<and> verbosity s < verbosity LvInfo
          \<longrightarrow> record_event layer event data w = w)"
proof (intro conjI impI)
  assume h: "get_prop data ''level'' = JStr x \<and> x \<noteq> []
            \<and> x \<notin> {''error'', ''warn'', ''info'', ''debug''} \<and> x \<notin> set Object_prototype
            \<and> writable w f"
  then have "level_rank (js_or (get_prop data ''level'') (JStr ''info'')) = CNaN"
    using unknown_level_rank [of x] by simp
  then have "\<not> js_gt (level_rank (js_or (get_prop data ''level'') (JStr ''info'')))
                      (LOG_LEVELS (env_or (env w ''LOG_LEVEL'') ''info''))"
    by simp
  with assms h show "record_event layer event data w =
                w\<lparr>files := (files w)(f := files w f @
                     [\<lparr>ts = now w, sid = sessionID (tracer w), lyr = toUpperCase layer,
                       evt = toUpperCase event, dat = data\<rparr>])\<rparr>"
    using record_event_written [of w f data layer event] by (simp add: entry_of_def)
next
  assume h: "get_prop data ''level'' = JStr [] \<and> system_level w s \<and> verbosity s < verbosity LvInfo"
  then have sl: "system_level w s" and lt: "verbosity s < verbosity LvInfo" by simp_all
  from h have "level_rank (js_or (get_prop data ''level'') (JStr ''info'')) = CNum (verbosity LvInfo)"
    by (simp add: empty_level_rank)
  with lt have "js_gt (level_rank (js_or (get_prop data ''level'') (JStr ''info'')))
                      (LOG_LEVELS (env_or (env w ''LOG_LEVEL'') ''info''))"
    by (simp add: system_level_rank [OF sl])
  then show "record_event layer event data w = w"
    by (rule record_event_dropped)
qed

theorem record_unknown_level_never_dropped_witness:
  "initialized (traced_world\<lparr>env := [''LOG_LEVEL'' \<mapsto> ''error'']\<rparr>) trace_path
   \<and> enableTracing (traced_world\<lparr>env := [''LOG_LEVEL'' \<mapsto> ''error'']\<rparr>)
   \<and> writable (traced_world\<lparr>env := [''LOG_LEVEL'' \<mapsto> ''error'']\<rparr>) trace_path
   \<and> get_prop [(''level'', JStr ''verbose'')] ''level'' = JStr ''verbose''
   \<and> ''verbose'' \<notin> set Object_prototype
   \<and> files (record_event ''cli'' ''prompt'' [(''level'', JStr ''verbose'')]
              (traced_world\<lparr>env := [''LOG_LEVEL'' \<mapsto> ''error'']\<rparr>)) trace_path
       = files traced_world trace_path @
           [\<lparr>ts = 1000, sid = Some ''K2J5H8Q'', lyr = ''CLI'', evt = ''PROMPT'',
             dat = [(''level'', JStr ''verbose'')]\<rparr>]
   \<and> system_level (traced_world\<lparr>env := [''LOG_LEVEL'' \<mapsto> ''warn'']\<rparr>) LvWarn
   \<and> record_event ''cli'' ''prompt'' [(''level'', JStr [])]
         (traced_world\<lparr>env := [''LOG_LEVEL'' \<mapsto> ''warn'']\<rparr>)
       = traced_world\<lparr>env := [''LOG_LEVEL'' \<mapsto> ''warn'']\<rparr>"
proof -
  let ?w = "traced_world\<lparr>env := [''LOG_LEVEL'' \<mapsto> ''error'']\<rparr>"
  let ?v = "traced_world\<lparr>env := [''LOG_LEVEL'' \<mapsto> ''warn'']\<rparr>"
  have i: "initialized ?w trace_path" "enableTracing ?w" "writable ?w trace_path"
    using traced_world_ready by (simp_all add: initialized_def writable_def traced_world_fields)
  have iv: "initialized ?v trace_path" "enableTracing ?v" "system_level ?v LvWarn"
    using traced_world_ready by (simp_all add: initialized_def system_level_def traced_world_fields)
  have g: "get_prop [(''level'', JStr ''verbose'')] ''level'' = JStr ''verbose''"
    "get_prop [(''level'', JStr [])] ''level'' = JStr []"
    by (simp_all add: get_prop_def)
  have n: "''verbose'' \<noteq> []" "''verbose'' \<notin> {''error'', ''warn'', ''info'', ''debug''}"
    "''verbose'' \<notin> set Object_prototype"
    by (simp_all add: Object_prototype_def)
  from record_unknown_level_never_dropped [OF i(1,2), where data = "[(''level'', JStr ''verbose'')]"
      and x = "''verbose''" and layer = "''cli''" and event = "''prompt''"] i g n
  have a: "files (record_event ''cli'' ''prompt'' [(''level'', JStr ''verbose'')] ?w) trace_path
       = files traced_world trace_path @
           [\<lparr>ts = 1000, sid = Some ''K2J5H8Q'', lyr = ''CLI'', evt = ''PROMPT'',
             dat = [(''level'', JStr ''verbose'')]\<rparr>]"
    by (simp add: traced_world_tracer traced_world_fields upper_eval)
  from record_unknown_level_never_dropped [OF iv(1,2), where data = "[(''level'', JStr [])]"
      and s = LvWarn and layer = "''cli''" and event = "''prompt''"] iv(3) g(2)
  have b: "record_event ''cli'' ''prompt'' [(''level'', JStr [])] ?v = ?v"
    by simp
  from a b i iv g n show ?thesis by simp
qed

theorem record_empty_level_counterexample:
  "initialized (traced_world\<lparr>env := [''LOG_LEVEL'' \<mapsto> ''error'']\<rparr>) trace_path
   \<and> enableTracing (traced_world\<lparr>env := [''LOG_LEVEL'' \<mapsto> ''error'']\<rparr>)
   \<and> writable (traced_world\<lparr>env := [''LOG_LEVEL'' \<mapsto> ''error'']\<rparr>) trace_path
   \<and> get_prop [(''level'', JStr [])] ''level'' = JStr []
   \<and> [] \<notin> {''error'', ''warn'', ''info'', ''debug''}
   \<and> record_event ''cli'' ''prompt'' [(''level'', JStr [])]
         (traced_world\<lparr>env := [''LOG_LEVEL'' \<mapsto> ''error'']\<rparr>)
       = traced_world\<lparr>env := [''LOG_LEVEL'' \<mapsto> ''error'']\<rparr>"
  by (simp add: initialized_def writable_def traced_world_tracer traced_world_fields
      get_prop_def record_event_def js_or_def env_or_def LOG_LEVELS_named)


section \<open>A failing operation inside a span\<close>

lemma traceSpan_rethrows:
  assumes "enableTracing w" and "fn (record_event layer (label @ ''_START'') meta w) = (Inl e, w_op)"
    and "read_message e = Inr m"
  shows "traceSpan layer label fn meta w
           = (Inl e, record_event layer (label @ ''_FAILED'')
                       (set_prop ''error'' m
                          (set_prop ''durationMs'' (JNum (Fin (of_int (now w_op - now w)))) meta)) w_op)"
  using assms by (simp add: traceSpan_def Let_def)

text \<open>
  A thrown \<open>null\<close> or \<open>undefined\<close> is not covered by the statement below: reading its
  message fails, the span ends with that \<open>TypeError\<close> and records no \<open>_FAILED\<close> event.
\<close>

lemma traceSpan_unreadable_failure:
  assumes "enableTracing w" and "fn (record_event layer (label @ ''_START'') meta w) = (Inl e, w_op)"
    and "read_message e = Inl typeError"
  shows "traceSpan layer label fn meta w = (Inl (Thrown_Error typeError), w_op)"
  using assms by (simp add: traceSpan_def Let_def)

text \<open>
  C3 (amended). With tracing enabled, a span around an operation that throws an \<open>Error\<close>
  (or any value whose \<open>message\<close> can be read, that is any but \<open>null\<close> and
  \<open>undefined\<close>) throws that same value, unchanged. When moreover the tracer is initialised,
  the level declared in \<open>meta\<close> is not more verbose than the system level, the trace file
  accepts appends, and the operation leaves the tracing switch, the tracer and \<open>LOG_LEVEL\<close>
  as they were, the span appends two lines: the \<open>_START\<close> event before the operation runs,
  and after it the \<open>_FAILED\<close> event, whose metadata is \<open>meta\<close> with the elapsed
  \<open>durationMs\<close> and the failure's message; they are exactly the lines added to the file
  when the operation itself wrote none. When the level declared in \<open>meta\<close> is more verbose
  than the system level, before and after the operation, the span writes nothing.
\<close>

theorem traceSpan_failure:
  assumes "enableTracing w"
    and op: "fn (record_event layer (label @ ''_START'') meta w) = (Inl e, w_op)"
    and msg: "read_message e = Inr m"
    and st: "start = \<lparr>ts = now w, sid = sessionID (tracer w), lyr = toUpperCase layer,
                      evt = toUpperCase label @ ''_START'', dat = meta\<rparr>"
    and fl: "failed = \<lparr>ts = now w_op, sid = sessionID (tracer w_op), lyr = toUpperCase layer,
                      evt = toUpperCase label @ ''_FAILED'',
                      dat = set_prop ''error'' m
                              (set_prop ''durationMs'' (JNum (Fin (of_int (now w_op - now w)))) meta)\<rparr>"
  shows "fst (traceSpan layer label fn meta w) = Inl e
       \<and> (initialized w f \<and> writable w f \<and> declared_level meta r \<and> system_level w s
            \<and> verbosity r \<le> verbosity s
            \<and> enableTracing w_op \<and> initialized w_op f \<and> writable w_op f \<and> system_level w_op s
          \<longrightarrow> record_event layer (label @ ''_START'') meta w
                  = w\<lparr>files := (files w)(f := files w f @ [start])\<rparr>
              \<and> snd (traceSpan layer label fn meta w)
                  = w_op\<lparr>files := (files w_op)(f := files w_op f @ [failed])\<rparr>
              \<and> (files w_op f = files w f @ [start] \<longrightarrow>
                    files (snd (traceSpan layer label fn meta w)) f = files w f @ [start, failed]))
       \<and> (declared_level meta r \<and> system_level w s \<and> system_level w_op s
            \<and> verbosity s < verbosity r
          \<longrightarrow> record_event layer (label @ ''_START'') meta w = w
              \<and> snd (traceSpan layer label fn meta w) = w_op)"
proof (intro conjI impI)
  let ?m = "set_prop ''error'' m
              (set_prop ''durationMs'' (JNum (Fin (of_int (now w_op - now w)))) meta)"
  have R: "traceSpan layer label fn meta w
             = (Inl e, record_event layer (label @ ''_FAILED'') ?m w_op)"
    using traceSpan_rethrows [where fn = fn and w = w and layer = layer and label = label
        and meta = meta and e = e and w_op = w_op and m = m] assms(1) op msg by simp
  have dm: "declared_level ?m l" if "declared_level meta l" for l
    using that by (simp add: declared_level_def map_of_set_prop)
  show "fst (traceSpan layer label fn meta w) = Inl e"
    by (simp add: R)
  {
    assume h: "initialized w f \<and> writable w f \<and> declared_level meta r \<and> system_level w s
            \<and> verbosity r \<le> verbosity s
            \<and> enableTracing w_op \<and> initialized w_op f \<and> writable w_op f \<and> system_level w_op s"
    then have i: "initialized w f" and wr: "writable w f" and d: "declared_level meta r"
      and sl: "system_level w s" and le: "verbosity r \<le> verbosity s"
      and e2: "enableTracing w_op" and i2: "initialized w_op f" and wr2: "writable w_op f"
      and sl2: "system_level w_op s"
      by simp_all
    show rs: "record_event layer (label @ ''_START'') meta w
          = w\<lparr>files := (files w)(f := files w f @ [start])\<rparr>"
      using record_event_admitted [OF i assms(1) wr d sl le, of layer "label @ ''_START''"]
      by (simp add: st entry_of_def toUpperCase_append toUpperCase_suffixes)
    have fin: "record_event layer (label @ ''_FAILED'') ?m w_op
          = w_op\<lparr>files := (files w_op)(f := files w_op f @ [failed])\<rparr>"
      using record_event_admitted [OF i2 e2 wr2 dm [OF d] sl2 le, of layer "label @ ''_FAILED''"]
      by (simp add: fl entry_of_def toUpperCase_append toUpperCase_suffixes)
    show sn: "snd (traceSpan layer label fn meta w)
          = w_op\<lparr>files := (files w_op)(f := files w_op f @ [failed])\<rparr>"
      using fin by (simp add: R)
    assume "files w_op f = files w f @ [start]"
    then show "files (snd (traceSpan layer label fn meta w)) f = files w f @ [start, failed]"
      by (simp add: sn)
  }
  {
    assume h: "declared_level meta r \<and> system_level w s \<and> system_level w_op s
            \<and> verbosity s < verbosity r"
    then have d: "declared_level meta r" and sl: "system_level w s"
      and sl2: "system_level w_op s" and lt: "verbosity s < verbosity r"
      by simp_all
    show "record_event layer (label @ ''_START'') meta w = w"
      by (rule record_event_more_verbose [OF d sl lt])
    have "record_event layer (label @ ''_FAILED'') ?m w_op = w_op"
      by (rule record_event_more_verbose [OF dm [OF d] sl2 lt])
    then show "snd (traceSpan layer label fn meta w) = w_op"
      by (simp add: R)
  }
qed

theorem traceSpan_failure_witness:
  "enableTracing traced_world \<and> initialized traced_world trace_path
   \<and> writable traced_world trace_path
   \<and> declared_level [(''symbol'', JStr ''SPX'')] LvInfo \<and> system_level traced_world LvInfo
   \<and> fst (failing_op traced_world)
       = Inl (Thrown_Error (Error ''Upstream Market Provider is currently unreachable.''))
   \<and> read_message (Thrown_Error (Error ''Upstream Market Provider is currently unreachable.''))
       = Inr (JStr ''Upstream Market Provider is currently unreachable.'')
   \<and> fst (traceSpan ''domain'' ''get_market_snapshot'' failing_op [(''symbol'', JStr ''SPX'')] traced_world)
       = Inl (Thrown_Error (Error ''Upstream Market Provider is currently unreachable.''))
   \<and> files (snd (traceSpan ''domain'' ''get_market_snapshot'' failing_op
                     [(''symbol'', JStr ''SPX'')] traced_world)) trace_path
       = files traced_world trace_path @
           [\<lparr>ts = 1000, sid = Some ''K2J5H8Q'', lyr = ''DOMAIN'', evt = ''GET_MARKET_SNAPSHOT_START'',
             dat = [(''symbol'', JStr ''SPX'')]\<rparr>,
            \<lparr>ts = 1025, sid = Some ''K2J5H8Q'', lyr = ''DOMAIN'', evt = ''GET_MARKET_SNAPSHOT_FAILED'',
             dat = [(''symbol'', JStr ''SPX''), (''durationMs'', JNum (Fin 25)),
                    (''error'', JStr ''Upstream Market Provider is currently unreachable.'')]\<rparr>]"
proof -
  let ?meta = "[(''symbol'', JStr ''SPX'')]"
  let ?e = "Thrown_Error (Error ''Upstream Market Provider is currently unreachable.'')"
  let ?m = "JStr ''Upstream Market Provider is currently unreachable.''"
  let ?R = "record_event ''domain'' (''get_market_snapshot'' @ ''_START'') ?meta traced_world"
  let ?wop = "?R\<lparr>now := now ?R + 25\<rparr>"
  have rm: "read_message ?e = Inr ?m" by simp
  note T = traceSpan_failure [where w = traced_world and f = trace_path and meta = ?meta
      and r = LvInfo and s = LvInfo and layer = "''domain''" and label = "''get_market_snapshot''"
      and fn = failing_op and e = ?e and w_op = ?wop and m = ?m,
      OF traced_world_fields(1) failing_op_def rm refl refl]
  have d: "declared_level ?meta LvInfo" by (simp add: declared_level_def)
  have s: "system_level traced_world LvInfo" by (simp add: system_level_def traced_world_fields)
  have f0: "fst (failing_op traced_world) = Inl ?e" by (simp add: failing_op_def)
  have H: "initialized traced_world trace_path \<and> writable traced_world trace_path
      \<and> declared_level ?meta LvInfo \<and> system_level traced_world LvInfo
      \<and> verbosity LvInfo \<le> verbosity LvInfo
      \<and> enableTracing ?wop \<and> initialized ?wop trace_path \<and> writable ?wop trace_path
      \<and> system_level ?wop LvInfo"
    using traced_world_ready d s
    by (simp add: initialized_def writable_def system_level_def record_event_frame
        traced_world_fields)
  note C = mp [OF conjunct1 [OF conjunct2 [OF T]] H]
  have P: "files ?wop trace_path = files traced_world trace_path @
      [\<lparr>ts = now traced_world, sid = sessionID (tracer traced_world), lyr = toUpperCase ''domain'',
        evt = toUpperCase ''get_market_snapshot'' @ ''_START'', dat = ?meta\<rparr>]"
    using conjunct1 [OF C] by simp
  note L = mp [OF conjunct2 [OF conjunct2 [OF C]] P]
  have n: "now ?wop = 1025" by (simp add: record_event_frame traced_world_fields)
  have t: "tracer ?wop = tracer traced_world" by (simp add: record_event_frame)
  have "files (snd (traceSpan ''domain'' ''get_market_snapshot'' failing_op ?meta traced_world)) trace_path
       = files traced_world trace_path @
           [\<lparr>ts = 1000, sid = Some ''K2J5H8Q'', lyr = ''DOMAIN'', evt = ''GET_MARKET_SNAPSHOT_START'',
             dat = ?meta\<rparr>,
            \<lparr>ts = 1025, sid = Some ''K2J5H8Q'', lyr = ''DOMAIN'', evt = ''GET_MARKET_SNAPSHOT_FAILED'',
             dat = [(''symbol'', JStr ''SPX''), (''durationMs'', JNum (Fin 25)),
                    (''error'', JStr ''Upstream Market Provider is currently unreachable.'')]\<rparr>]"
    unfolding L n t by (simp add: traced_world_tracer traced_world_fields upper_examples)
  with conjunct1 [OF T] d s f0 rm traced_world_ready traced_world_fields(1) show ?thesis by simp
qed

theorem traceSpan_failure_filtered_counterexample:
  "enableTracing traced_world \<and> initialized traced_world trace_path
   \<and> writable traced_world trace_path
   \<and> fst (failing_op traced_world)
       = Inl (Thrown_Error (Error ''Upstream Market Provider is currently unreachable.''))
   \<and> traceSpan ''domain'' ''get_market_snapshot'' failing_op [(''level'', JStr ''debug'')] traced_world
       = (Inl (Thrown_Error (Error ''Upstream Market Provider is currently unreachable.'')),
          traced_world\<lparr>now := 1025\<rparr>)
   \<and> files (snd (traceSpan ''domain'' ''get_market_snapshot'' failing_op
                     [(''level'', JStr ''debug'')] traced_world)) = files traced_world"
proof -
  have span: "traceSpan ''domain'' ''get_market_snapshot'' failing_op [(''level'', JStr ''debug'')] traced_world
       = (Inl (Thrown_Error (Error ''Upstream Market Provider is currently unreachable.'')),
          traced_world\<lparr>now := 1025\<rparr>)"
    by (simp add: traceSpan_def record_event_def failing_op_def traced_world_fields
        traced_world_tracer get_prop_def js_or_def env_or_def LOG_LEVELS_named Let_def)
  show ?thesis
    by (simp add: span traced_world_ready traced_world_fields failing_op_def)
qed

section \<open>The \<open>TRACER_READY\<close> event\<close>

lemma initialize_success:
  assumes "\<not> isInitialized (tracer w)"
    and "mkdir_error w (join (join rootPath ''logs'') ''traces'') = None"
  shows "initialize rootPath namespace w =
           record_event ''SYSTEM'' ''TRACER_READY''
             [(''sid'', JStr (toUpperCase (take 7 (drop 2 (random36 w (draws w)))))),
              (''env'', JStr (env_or (env w ''NODE_ENV'') ''development'')),
              (''node'', JStr (node_version w))]
             (w\<lparr>draws := Suc (draws w),
                dirs := insert (join (join rootPath ''logs'') ''traces'') (dirs w),
                tracer := (tracer w)\<lparr>projectRoot := Some rootPath,
                     sessionID := Some (toUpperCase (take 7 (drop 2 (random36 w (draws w))))),
                     traceFile := Some (join (join (join rootPath ''logs'') ''traces'')
                                        (namespace @ ''-'' @ localDate w @ ''.trace.log'')),
                     isInitialized := True\<rparr>\<rparr>)"
  using assms by (simp add: initialize_def mkdir_def Let_def)

text \<open>
  C4 (amended). Whenever initialisation succeeds (the tracer was not initialised and the trace
  directory could be made), the tracer is initialised with its trace file path and a session
  id. Exactly one \<open>SYSTEM/TRACER_READY\<close> event, carrying the session id, the runtime
  environment and the Node version, is appended to the trace file when at that moment tracing
  is enabled, the system level is info or debug, and the file accepts the append. With tracing
  disabled, or under the system levels error and warn, initialisation writes nothing.
\<close>

theorem initialize_ready_event:
  assumes "\<not> isInitialized (tracer w)"
    and "mkdir_error w (join (join rootPath ''logs'') ''traces'') = None"
    and f: "f = join (join (join rootPath ''logs'') ''traces'')
                  (namespace @ ''-'' @ localDate w @ ''.trace.log'')"
    and token: "token = toUpperCase (take 7 (drop 2 (random36 w (draws w))))"
    and ready: "ready = \<lparr>ts = now w, sid = Some token, lyr = ''SYSTEM'', evt = ''TRACER_READY'',
                  dat = [(''sid'', JStr token),
                         (''env'', JStr (env_or (env w ''NODE_ENV'') ''development'')),
                         (''node'', JStr (node_version w))]\<rparr>"
  shows "initialized (initialize rootPath namespace w) f
       \<and> sessionID (tracer (initialize rootPath namespace w)) = Some token
       \<and> join (join rootPath ''logs'') ''traces'' \<in> dirs (initialize rootPath namespace w)
       \<and> (enableTracing w \<and> system_level w s \<and> verbosity LvInfo \<le> verbosity s \<and> writable w f
            \<longrightarrow> files (initialize rootPath namespace w) = (files w)(f := files w f @ [ready]))
       \<and> (\<not> enableTracing w \<longrightarrow> files (initialize rootPath namespace w) = files w)
       \<and> (system_level w s \<and> verbosity s < verbosity LvInfo
            \<longrightarrow> files (initialize rootPath namespace w) = files w)"
proof -
  let ?d = "[(''sid'', JStr token), (''env'', JStr (env_or (env w ''NODE_ENV'') ''development'')),
             (''node'', JStr (node_version w))]"
  let ?w3 = "w\<lparr>draws := Suc (draws w),
                dirs := insert (join (join rootPath ''logs'') ''traces'') (dirs w),
                tracer := (tracer w)\<lparr>projectRoot := Some rootPath, sessionID := Some token,
                     traceFile := Some f, isInitialized := True\<rparr>\<rparr>"
  have init: "initialize rootPath namespace w = record_event ''SYSTEM'' ''TRACER_READY'' ?d ?w3"
    using initialize_success [OF assms(1,2)] by (simp add: f token)
  have i3: "initialized ?w3 f" by (simp add: initialized_def)
  have d: "declared_level ?d LvInfo" by (simp add: declared_level_def)
  have up: "toUpperCase ''SYSTEM'' = ''SYSTEM''" "toUpperCase ''TRACER_READY'' = ''TRACER_READY''"
    by (simp_all add: upper_eval)
  have a: "initialized (initialize rootPath namespace w) f"
    by (simp add: init initialized_def record_event_frame)
  have b: "sessionID (tracer (initialize rootPath namespace w)) = Some token"
    by (simp add: init record_event_frame)
  have c: "join (join rootPath ''logs'') ''traces'' \<in> dirs (initialize rootPath namespace w)"
    by (simp add: init record_event_dirs)
  have e1: "files (initialize rootPath namespace w) = (files w)(f := files w f @ [ready])"
    if h: "enableTracing w \<and> system_level w s \<and> verbosity LvInfo \<le> verbosity s \<and> writable w f"
  proof -
    have s3: "system_level ?w3 s" "enableTracing ?w3" "writable ?w3 f"
      using h by (simp_all add: system_level_def writable_def)
    from h have le: "verbosity LvInfo \<le> verbosity s" by simp
    from record_event_admitted [OF i3 s3(2) s3(3) d s3(1) le, of "''SYSTEM''" "''TRACER_READY''"]
    show ?thesis by (simp add: init up ready entry_of_def)
  qed
  have e2: "files (initialize rootPath namespace w) = files w" if "\<not> enableTracing w"
    using that by (simp add: init record_event_def)
  have e3: "files (initialize rootPath namespace w) = files w"
    if h: "system_level w s \<and> verbosity s < verbosity LvInfo"
  proof (cases "enableTracing w")
    case False
    then show ?thesis by (rule e2)
  next
    case True
    have s3: "system_level ?w3 s" "enableTracing ?w3"
      using h True by (simp_all add: system_level_def)
    from h have lt: "verbosity s < verbosity LvInfo" by simp
    from record_event_more_verbose [OF d s3(1) lt, of "''SYSTEM''" "''TRACER_READY''"]
    show ?thesis by (simp add: init)
  qed
  from a b c e1 e2 e3 show ?thesis by blast
qed

theorem initialize_ready_event_witness:
  "\<not> isInitialized (tracer (process_start\<lparr>enableTracing := True\<rparr>))
   \<and> mkdir_error (process_start\<lparr>enableTracing := True\<rparr>) (join (join ''/app'' ''logs'') ''traces'') = None
   \<and> enableTracing (process_start\<lparr>enableTracing := True\<rparr>)
   \<and> system_level (process_start\<lparr>enableTracing := True\<rparr>) LvInfo
   \<and> writable (process_start\<lparr>enableTracing := True\<rparr>) trace_path
   \<and> initialized (initialize ''/app'' ''plnexus'' (process_start\<lparr>enableTracing := True\<rparr>)) trace_path
   \<and> files (initialize ''/app'' ''plnexus'' (process_start\<lparr>enableTracing := True\<rparr>)) trace_path
       = [\<lparr>ts = 1000, sid = Some ''K2J5H8Q'', lyr = ''SYSTEM'', evt = ''TRACER_READY'',
           dat = [(''sid'', JStr ''K2J5H8Q''), (''env'', JStr ''development''),
                  (''node'', JStr ''v20.11.0'')]\<rparr>]"
proof -
  let ?w = "process_start\<lparr>enableTracing := True\<rparr>"
  have f: "trace_path = join (join (join ''/app'' ''logs'') ''traces'')
                  (''plnexus'' @ ''-'' @ localDate ?w @ ''.trace.log'')"
    by (simp add: trace_path_def join_def process_start_def)
  have h: "\<not> isInitialized (tracer ?w)"
    "mkdir_error ?w (join (join ''/app'' ''logs'') ''traces'') = None"
    by (simp_all add: process_start_def new_Tracer_def)
  have g: "enableTracing ?w \<and> system_level ?w LvInfo \<and> verbosity LvInfo \<le> verbosity LvInfo
      \<and> writable ?w trace_path"
    by (simp add: system_level_def writable_def process_start_def)
  note T = initialize_ready_event [where w = ?w and rootPath = "''/app''" and namespace = "''plnexus''"
      and f = trace_path and s = LvInfo, OF h f refl refl]
  note F = mp [OF conjunct1 [OF conjunct2 [OF conjunct2 [OF conjunct2 [OF T]]]] g]
  have tok: "toUpperCase (take 7 (drop 2 (random36 ?w (draws ?w)))) = ''K2J5H8Q''"
    by (simp add: process_start_def upper_eval)
  have "files (initialize ''/app'' ''plnexus'' ?w) trace_path
       = [\<lparr>ts = 1000, sid = Some ''K2J5H8Q'', lyr = ''SYSTEM'', evt = ''TRACER_READY'',
           dat = [(''sid'', JStr ''K2J5H8Q''), (''env'', JStr ''development''),
                  (''node'', JStr ''v20.11.0'')]\<rparr>]"
    unfolding F tok by (simp add: process_start_def env_or_def)
  with conjunct1 [OF T] h g show ?thesis by simp
qed

theorem initialize_disabled_counterexample:
  "\<not> isInitialized (tracer process_start)
   \<and> mkdir_error process_start (join (join ''/app'' ''logs'') ''traces'') = None
   \<and> initialized (initialize ''/app'' ''plnexus'' process_start) trace_path
   \<and> join (join ''/app'' ''logs'') ''traces'' \<in> dirs (initialize ''/app'' ''plnexus'' process_start)
   \<and> files (initialize ''/app'' ''plnexus'' process_start) = files process_start
   \<and> enableTracing (bootstrap_init ''/app'' ''/app/.env'' process_start)
   \<and> files (bootstrap_init ''/app'' ''/app/.env'' process_start) = files process_start"
proof -
  have a: "\<not> isInitialized (tracer process_start)"
    "mkdir_error process_start (join (join ''/app'' ''logs'') ''traces'') = None"
    "\<not> enableTracing process_start"
    by (simp_all add: process_start_def new_Tracer_def)
  have b: "initialized (initialize ''/app'' ''plnexus'' process_start) trace_path"
    "join (join ''/app'' ''logs'') ''traces'' \<in> dirs (initialize ''/app'' ''plnexus'' process_start)"
    "files (initialize ''/app'' ''plnexus'' process_start) = files process_start"
    by (simp_all add: initialized_def process_start_initialize join_def)
  have c: "enableTracing (bootstrap_init ''/app'' ''/app/.env'' process_start)"
    by (simp add: bootstrap_init_def hydrate_def dotenv_config_def logger_def String_env_def
        initialize_def mkdir_def record_event_def process_start_def new_Tracer_def Let_def
        toLowerCase_def lower_char_def lower_letters_def upper_letters_def)
  have d: "files (bootstrap_init ''/app'' ''/app/.env'' process_start) = files process_start"
    by (rule bootstrap_init_writes_nothing [OF a(3)])
  from a b c d show ?thesis by simp
qed

section \<open>Initialisation is done once\<close>

text \<open>
  C6. After a first call of \<open>initialize\<close> that succeeded (the tracer is initialised), a second
  call with any root path and namespace changes nothing in the process: the trace file path and
  the session id are those of the first call, and no random number is drawn for a new id.
\<close>

theorem initialize_idempotent:
  assumes "isInitialized (tracer (initialize rootPath namespace w))"
  shows "initialize rootPath' namespace' (initialize rootPath namespace w) = initialize rootPath namespace w
       \<and> traceFile (tracer (initialize rootPath' namespace' (initialize rootPath namespace w)))
           = traceFile (tracer (initialize rootPath namespace w))
       \<and> sessionID (tracer (initialize rootPath' namespace' (initialize rootPath namespace w)))
           = sessionID (tracer (initialize rootPath namespace w))
       \<and> draws (initialize rootPath' namespace' (initialize rootPath namespace w))
           = draws (initialize rootPath namespace w)"
proof -
  have "initialize rootPath' namespace' (initialize rootPath namespace w) = initialize rootPath namespace w"
    using assms by (subst initialize_def) simp
  then show ?thesis by simp
qed

theorem initialize_idempotent_witness:
  "isInitialized (tracer (initialize ''/app'' ''plnexus'' process_start))
   \<and> traceFile (tracer (initialize ''/srv'' ''other'' (initialize ''/app'' ''plnexus'' process_start)))
       = Some trace_path
   \<and> sessionID (tracer (initialize ''/srv'' ''other'' (initialize ''/app'' ''plnexus'' process_start)))
       = Some ''K2J5H8Q''
   \<and> draws (initialize ''/srv'' ''other'' (initialize ''/app'' ''plnexus'' process_start)) = 1"
proof -
  have i: "isInitialized (tracer (initialize ''/app'' ''plnexus'' process_start))"
    by (simp add: process_start_initialize)
  from initialize_idempotent [OF i, of "''/srv''" "''other''"] i show ?thesis
    by (simp add: process_start_initialize)
qed

section \<open>Unknown modes in \<open>loadAdapter\<close>\<close>

text \<open>
  A mode that \<open>adapters[mode]\<close> finds neither as an own nor as an inherited property makes
  \<open>loadAdapter\<close> fail with a message that holds every key the manifest declares.
\<close>

lemma sublist_prepend: "sublist xs ys \<Longrightarrow> sublist xs (zs @ ys)"
proof -
  assume "sublist xs ys"
  then obtain ps ss where "ys = ps @ xs @ ss" by (auto simp: sublist_def)
  then have "zs @ ys = (zs @ ps) @ xs @ ss" by simp
  then show ?thesis unfolding sublist_def by blast
qed

lemma sublist_join_with: "k \<in> set ks \<Longrightarrow> sublist k (join_with sep ks)"
proof (induction sep ks rule: join_with.induct)
  case (1 sep)
  then show ?case by simp
next
  case (2 sep x)
  then show ?case by simp
next
  case (3 sep x y ys)
  show ?case
  proof (cases "k = x")
    case True
    then show ?thesis by simp
  next
    case False
    with 3 have "sublist k (join_with sep (y # ys))" by simp
    then have "sublist k (x @ sep @ join_with sep (y # ys))"
      by (intro sublist_prepend)
    then show ?thesis by simp
  qed
qed

lemma loadAdapter_unknown_mode:
  assumes "readManifest (join (join rootPath ''config'') ''adapters.manifest.json'') = Manifest adapters"
    and "lookup adapters (mode_text mode) = Undefined"
  shows "fst (loadAdapter readManifest importModule rootPath mode getProviderConfig)
           = Inl (Error (''[AdapterFactory] Load failure for mode '' @ mode_text mode @ '': ''
                          @ ''Execution mode '' @ dq @ mode_text mode @ dq
                          @ '' is not defined in manifest. Available: [''
                          @ join_with '', '' (map fst adapters) @ '']''))"
  using assms by (simp add: loadAdapter_def loadAdapter_body_def getManifest_def Let_def)

lemma loadAdapter_unknown_mode_lists_keys:
  assumes "readManifest (join (join rootPath ''config'') ''adapters.manifest.json'') = Manifest adapters"
    and "lookup adapters (mode_text mode) = Undefined"
    and "k \<in> set (map fst adapters)"
  shows "\<exists>msg. fst (loadAdapter readManifest importModule rootPath mode getProviderConfig)
                  = Inl (Error msg) \<and> sublist k msg"
proof -
  let ?pre = "''[AdapterFactory] Load failure for mode '' @ mode_text mode @ '': ''
                @ ''Execution mode '' @ dq @ mode_text mode @ dq
                @ '' is not defined in manifest. Available: [''"
  have "sublist k (join_with '', '' (map fst adapters))"
    using assms(3) by (rule sublist_join_with)
  then have "sublist k (?pre @ join_with '', '' (map fst adapters) @ '']'')"
    unfolding sublist_def by (metis append.assoc)
  moreover have "fst (loadAdapter readManifest importModule rootPath mode getProviderConfig)
           = Inl (Error (?pre @ join_with '', '' (map fst adapters) @ '']''))"
    using loadAdapter_unknown_mode [where readManifest = readManifest and rootPath = rootPath
        and adapters = adapters and mode = mode and importModule = importModule
        and getProviderConfig = getProviderConfig] assms(1,2)
    by simp
  ultimately show ?thesis by blast
qed

text \<open>
  C5. The claim that every mode absent from the manifest's \<open>adapters\<close> map fails with a
  message enumerating the declared modes does not hold for the names that every object
  inherits from \<open>Object.prototype\<close>. Against a manifest declaring the modes 1 and 2, the
  mode \<open>constructor\<close> is absent from the map, yet \<open>adapters[mode]\<close> is the inherited
  function, the check \<open>!adapterDef\<close> passes, and the failure is the argument error of
  \<open>isAbsolute(undefined)\<close>, whose message holds neither 1 nor 2; the mode 9 on the same
  manifest gets the enumerating message.
\<close>

theorem loadAdapter_inherited_mode:
  "map_of example_manifest ''constructor'' = None
   \<and> map fst example_manifest = [''1'', ''2'']
   \<and> fst (loadAdapter (\<lambda>p. Manifest example_manifest) no_modules ''/app'' (Some ''constructor'') no_config)
       = Inl (Error (''[AdapterFactory] Load failure for mode constructor: The '' @ dq @ ''path'' @ dq
                      @ '' argument must be of type string. Received undefined''))
   \<and> CHR ''1'' \<notin> set (''[AdapterFactory] Load failure for mode constructor: The '' @ dq @ ''path'' @ dq
                      @ '' argument must be of type string. Received undefined'')
   \<and> CHR ''2'' \<notin> set (''[AdapterFactory] Load failure for mode constructor: The '' @ dq @ ''path'' @ dq
                      @ '' argument must be of type string. Received undefined'')
   \<and> fst (loadAdapter (\<lambda>p. Manifest example_manifest) no_modules ''/app'' (Some ''9'') no_config)
       = Inl (Error (''[AdapterFactory] Load failure for mode 9: Execution mode '' @ dq @ ''9'' @ dq
                      @ '' is not defined in manifest. Available: [1, 2]''))"
  by (simp add: loadAdapter_def loadAdapter_body_def getManifest_def lookup_def Object_prototype_def
      example_manifest_def mode_text_def dq_def Let_def)

section \<open>The \<open>MarketQuote\<close> constructor\<close>

lemma letters_domain: "fst ` set (zip lower_letters upper_letters) = set lower_letters"
proof -
  have "length lower_letters = length upper_letters"
    by (simp add: lower_letters_def upper_letters_def)
  then have "map fst (zip lower_letters upper_letters) = lower_letters"
    by (rule map_fst_zip)
  then have "set (map fst (zip lower_letters upper_letters)) = set lower_letters"
    by (rule arg_cong)
  then show ?thesis by (simp only: set_map)
qed

lemma upper_char_not_lower: "upper_char c \<notin> set lower_letters"
proof (cases "map_of (zip lower_letters upper_letters) c")
  case None
  then have "c \<notin> set lower_letters"
    by (simp add: map_of_eq_None_iff letters_domain)
  with None show ?thesis by (simp add: upper_char_def)
next
  case (Some u)
  then have "(c, u) \<in> set (zip lower_letters upper_letters)"
    by (rule map_of_SomeD)
  then have "u \<in> set upper_letters"
    by (rule set_zip_rightD)
  then have "u \<notin> set lower_letters"
    by (auto simp: upper_letters_def lower_letters_def)
  with Some show ?thesis by (simp add: upper_char_def)
qed

lemma toUpperCase_no_lower: "c \<in> set (toUpperCase s) \<Longrightarrow> c \<notin> set lower_letters"
  by (auto simp: toUpperCase_def upper_char_not_lower)

lemma upper_char_idem: "upper_char (upper_char c) = upper_char c"
proof -
  have "upper_char c \<notin> fst ` set (zip lower_letters upper_letters)"
    by (simp add: letters_domain upper_char_not_lower)
  then have "map_of (zip lower_letters upper_letters) (upper_char c) = None"
    by (simp add: map_of_eq_None_iff)
  then show ?thesis by (simp add: upper_char_def [of "upper_char c"])
qed

lemma toUpperCase_idem: "toUpperCase (toUpperCase s) = toUpperCase s"
  by (simp add: toUpperCase_def upper_char_idem)

lemma new_MarketQuote_symbol:
  assumes "new_MarketQuote p = Inr q"
  shows "\<exists>x. p_symbol p = JStr x \<and> x \<noteq> [] \<and> symbol q = toUpperCase x"
proof (cases "p_symbol p")
  case (JStr x)
  with assms show ?thesis
    by (auto simp: new_MarketQuote_def split: if_splits)
qed (use assms in \<open>simp_all add: new_MarketQuote_def\<close>)

text \<open>
  C8. With a non-empty string symbol and a truthy numeric timestamp, construction with price
  \<open>-1\<close> throws the invalid-price error and construction with price \<open>0\<close> succeeds. Every
  constructed quote stores the upper-casing of the input symbol: the input was a string, the
  stored symbol is its \<open>toUpperCase\<close>, holds no lower-case letter and is a fixed point of
  \<open>toUpperCase\<close>, whatever the case of the input.
\<close>

theorem MarketQuote_price_and_symbol:
  assumes "s \<noteq> []" and "truthy (JNum t)"
  shows "new_MarketQuote \<lparr>p_symbol = JStr s, p_price = JNum (Fin (- 1)), p_timestamp = JNum t,
                           p_source = src\<rparr>
           = Inl (InvalidPrice (JStr s) (JNum (Fin (- 1))))
       \<and> new_MarketQuote \<lparr>p_symbol = JStr s, p_price = JNum (Fin 0), p_timestamp = JNum t,
                           p_source = src\<rparr>
           = Inr \<lparr>symbol = toUpperCase s, price = Fin 0, timestamp = t,
                  source = js_or src (JStr ''UNKNOWN'')\<rparr>
       \<and> (\<forall>p q. new_MarketQuote p = Inr q \<longrightarrow>
              (\<exists>x. p_symbol p = JStr x \<and> symbol q = toUpperCase x)
              \<and> (\<forall>c \<in> set (symbol q). c \<notin> set lower_letters)
              \<and> toUpperCase (symbol q) = symbol q)"
proof (intro conjI allI impI)
  show "new_MarketQuote \<lparr>p_symbol = JStr s, p_price = JNum (Fin (- 1)), p_timestamp = JNum t,
                           p_source = src\<rparr>
           = Inl (InvalidPrice (JStr s) (JNum (Fin (- 1))))"
    using assms by (simp add: new_MarketQuote_def)
next
  show "new_MarketQuote \<lparr>p_symbol = JStr s, p_price = JNum (Fin 0), p_timestamp = JNum t,
                           p_source = src\<rparr>
           = Inr \<lparr>symbol = toUpperCase s, price = Fin 0, timestamp = t,
                  source = js_or src (JStr ''UNKNOWN'')\<rparr>"
    using assms by (simp add: new_MarketQuote_def)
next
  fix p q assume a: "new_MarketQuote p = Inr q"
  from new_MarketQuote_symbol [OF a]
  obtain x where x: "p_symbol p = JStr x" "symbol q = toUpperCase x" by blast
  then show "\<exists>x. p_symbol p = JStr x \<and> symbol q = toUpperCase x" by blast
  from x show "\<forall>c \<in> set (symbol q). c \<notin> set lower_letters"
    by (simp add: toUpperCase_no_lower)
  from x show "toUpperCase (symbol q) = symbol q"
    by (simp add: toUpperCase_idem)
qed

theorem MarketQuote_price_and_symbol_witness:
  "''spx'' \<noteq> [] \<and> truthy (JNum (Fin 1766400000000))
   \<and> new_MarketQuote \<lparr>p_symbol = JStr ''spx'', p_price = JNum (Fin (- 1)),
                       p_timestamp = JNum (Fin 1766400000000), p_source = JStr ''Test''\<rparr>
       = Inl (InvalidPrice (JStr ''spx'') (JNum (Fin (- 1))))
   \<and> new_MarketQuote \<lparr>p_symbol = JStr ''spx'', p_price = JNum (Fin 0),
                       p_timestamp = JNum (Fin 1766400000000), p_source = JStr ''Test''\<rparr>
       = Inr \<lparr>symbol = ''SPX'', price = Fin 0, timestamp = Fin 1766400000000,
              source = JStr ''Test''\<rparr>"
proof -
  have h: "''spx'' \<noteq> []" "truthy (JNum (Fin 1766400000000))" by simp_all
  have u: "toUpperCase ''spx'' = ''SPX''" by (simp add: upper_eval)
  from MarketQuote_price_and_symbol [OF h, of "JStr ''Test''"] h show ?thesis
    by (simp add: u js_or_def)
qed

text \<open>
  C10. With a non-empty string symbol and a number that is not negative as price, construction
  with timestamp \<open>0\<close> throws the timestamp error, and so does every falsy timestamp
  (\<open>NaN\<close>, \<open>null\<close>, \<open>undefined\<close>, the empty string, \<open>false\<close>): the check is
  \<open>!timestamp\<close> before \<open>typeof\<close>.
\<close>

theorem MarketQuote_rejects_zero_timestamp:
  assumes "s \<noteq> []" and "\<not> lt_zero n"
  shows "new_MarketQuote \<lparr>p_symbol = JStr s, p_price = JNum n, p_timestamp = JNum (Fin 0),
                           p_source = src\<rparr>
           = Inl (InvalidTimestamp (JStr s))
       \<and> (\<forall>t. \<not> truthy t \<longrightarrow>
              new_MarketQuote \<lparr>p_symbol = JStr s, p_price = JNum n, p_timestamp = t,
                                p_source = src\<rparr>
                = Inl (InvalidTimestamp (JStr s)))"
  using assms by (simp add: new_MarketQuote_def)

theorem MarketQuote_rejects_zero_timestamp_witness:
  "''SPX'' \<noteq> [] \<and> \<not> lt_zero (Fin 6800)
   \<and> new_MarketQuote \<lparr>p_symbol = JStr ''SPX'', p_price = JNum (Fin 6800),
                       p_timestamp = JNum (Fin 0), p_source = JStr ''Test''\<rparr>
       = Inl (InvalidTimestamp (JStr ''SPX''))"
proof -
  have h: "''SPX'' \<noteq> []" "\<not> lt_zero (Fin 6800)" by simp_all
  from MarketQuote_rejects_zero_timestamp [OF h, of "JStr ''Test''"] h show ?thesis
    by simp
qed

section \<open>Input capture in \<open>bootstrap\<close>\<close>

text \<open>
  C7 (amended). The interactive prompt flow is taken exactly when the invocation has no
  argument at all. A help flag prints the usage and exits. Any other invocation with at least
  one argument takes the automated path, also when neither \<open>--live\<close> nor \<open>--mock\<close> is
  among the arguments: the mode is then \<open>null\<close> (\<open>'2'\<close> with \<open>--mock\<close>, else \<open>'1'\<close>
  with \<open>--live\<close>), and the symbol is the first argument that does not start with a dash.
\<close>

theorem input_capture_strategy:
  "(input_capture args = Interactive \<longleftrightarrow> args = [])
   \<and> (''--help'' \<in> set args \<or> ''-h'' \<in> set args \<longrightarrow> input_capture args = HelpExit)
   \<and> (args \<noteq> [] \<and> ''--help'' \<notin> set args \<and> ''-h'' \<notin> set args \<longrightarrow>
        input_capture args =
          Automated
            (if ''--mock'' \<in> set args then Some ''2''
             else if ''--live'' \<in> set args then Some ''1'' else None)
            (find (\<lambda>arg. \<not> startsWith arg ''--'' \<and> \<not> startsWith arg ''-'') args))
   \<and> (args \<noteq> [] \<and> ''--help'' \<notin> set args \<and> ''-h'' \<notin> set args
        \<and> ''--mock'' \<notin> set args \<and> ''--live'' \<notin> set args \<longrightarrow>
        (\<exists>sym. input_capture args = Automated None sym))"
  by (cases args) (auto simp: input_capture_def Let_def)

theorem input_capture_strategy_witness:
  "input_capture [] = Interactive
   \<and> [''--mock'', ''SPX''] \<noteq> [] \<and> ''--help'' \<notin> set [''--mock'', ''SPX'']
   \<and> ''-h'' \<notin> set [''--mock'', ''SPX'']
   \<and> input_capture [''--mock'', ''SPX''] = Automated (Some ''2'') (Some ''SPX'')
   \<and> input_capture [''-h''] = HelpExit"
  using input_capture_strategy [of "[]"] input_capture_strategy [of "[''--mock'', ''SPX'']"]
    input_capture_strategy [of "[''-h'']"]
  by (simp add: startsWith_def)

theorem input_capture_positional_counterexample:
  "''--live'' \<notin> set [''SPX''] \<and> ''--mock'' \<notin> set [''SPX'']
   \<and> input_capture [''SPX''] = Automated None (Some ''SPX'')
   \<and> input_capture [''SPX''] \<noteq> Interactive"
  by (simp add: input_capture_def startsWith_def)

end
